theory Spec2Isabelle
  imports Complex_Main "HOL-Library.AList"
begin

section \<open>Python values\<close>

text \<open>
  An exception is either an instance of \<^verbatim>\<open>Exception\<close>, which the handlers
  \<^verbatim>\<open>except Exception as e\<close> of both modules catch, or an instance of
  \<^verbatim>\<open>BaseException\<close> only (\<^verbatim>\<open>KeyboardInterrupt\<close>, \<^verbatim>\<open>SystemExit\<close>), which they let
  through. The string is the text of the exception.
\<close>

datatype pyexc = Exception string | NonException string

fun caught :: "pyexc \<Rightarrow> bool" where
  "caught (Exception m) = True"
| "caught (NonException m) = False"

text \<open>The \<^verbatim>\<open>tickers\<close> argument is a \<^verbatim>\<open>str\<close> or a \<^verbatim>\<open>list\<close> of \<^verbatim>\<open>str\<close>.\<close>

datatype tickers = Single string | Many "string list"

fun is_str :: "tickers \<Rightarrow> bool" where
  "is_str (Single t) = True"
| "is_str (Many ts) = False"

section \<open>Tables\<close>

text \<open>
  A cell of a table holds a number, a text, or the missing value. A table has its column
  labels in order and its rows in order; a row is its index entry (the timestamp) and one
  cell per column. Labels are plain strings, or pairs (price field, ticker) in the
  combined table of a request for several tickers.
\<close>

datatype cell = Num real | Text string | NaN

record ('i, 'l) frame =
  columns :: "'l list"
  rows :: "('i \<times> cell list) list"

text \<open>Labels are unique and every row has one cell per column.\<close>

definition wf_frame :: "('i, 'l) frame \<Rightarrow> bool" where
  "wf_frame f \<longleftrightarrow>
     distinct (columns f) \<and> list_all (\<lambda>r. length (snd r) = length (columns f)) (rows f)"

text \<open>\<^verbatim>\<open>pd.DataFrame()\<close> and \<^verbatim>\<open>DataFrame.empty\<close>: true when either axis has length 0.\<close>

definition empty_frame :: "('i, 'l) frame" where
  "empty_frame = \<lparr>columns = [], rows = []\<rparr>"

definition df_empty :: "('i, 'l) frame \<Rightarrow> bool" where
  "df_empty f \<longleftrightarrow> columns f = [] \<or> rows f = []"

fun index_of :: "'a \<Rightarrow> 'a list \<Rightarrow> nat" where
  "index_of x [] = 0"
| "index_of x (y # ys) = (if x = y then 0 else Suc (index_of x ys))"

definition cell_at :: "cell list \<Rightarrow> nat \<Rightarrow> cell" where
  "cell_at r j = (if j < length r then r ! j else NaN)"

text \<open>\<^verbatim>\<open>data[cols]\<close> with a list of labels: a new table of those columns, in the order asked;
  \<^verbatim>\<open>KeyError\<close> when a label is absent.\<close>

definition getitem_cols :: "('i, 'l) frame \<Rightarrow> 'l list \<Rightarrow> pyexc + ('i, 'l) frame" where
  "getitem_cols f cs =
     (if list_all (\<lambda>c. c \<in> set (columns f)) cs
      then Inr \<lparr>columns = cs,
                rows = map (\<lambda>(i, r). (i, map (\<lambda>c. cell_at r (index_of c (columns f))) cs)) (rows f)\<rparr>
      else Inl (Exception ''KeyError''))"

text \<open>\<^verbatim>\<open>data[col]\<close> with one label: the column as a series of cells.\<close>

definition getcol :: "('i, 'l) frame \<Rightarrow> 'l \<Rightarrow> pyexc + cell list" where
  "getcol f c =
     (if c \<in> set (columns f)
      then Inr (map (\<lambda>(i, r). cell_at r (index_of c (columns f))) (rows f))
      else Inl (Exception ''KeyError''))"

text \<open>\<^verbatim>\<open>data[col] = series\<close>: replaces the column in place when the label exists, appends a
  column otherwise. The series has one cell per row.\<close>

definition setcol :: "('i, 'l) frame \<Rightarrow> 'l \<Rightarrow> cell list \<Rightarrow> ('i, 'l) frame" where
  "setcol f c s =
     (if c \<in> set (columns f)
      then f\<lparr>rows := map (\<lambda>((i, r), v). (i, r[index_of c (columns f) := v])) (zip (rows f) s)\<rparr>
      else \<lparr>columns = columns f @ [c],
            rows = map (\<lambda>((i, r), v). (i, r @ [v])) (zip (rows f) s)\<rparr>)"

text \<open>\<^verbatim>\<open>pd.to_numeric(series, errors='coerce')\<close>: numbers stay, a text becomes the number it
  parses to, and what does not parse becomes missing. The parser of numeric text belongs
  to the library and is a parameter.\<close>

fun to_numeric :: "(string \<Rightarrow> real option) \<Rightarrow> cell \<Rightarrow> cell" where
  "to_numeric p (Num x) = Num x"
| "to_numeric p (Text s) = (case p s of Some x \<Rightarrow> Num x | None \<Rightarrow> NaN)"
| "to_numeric p NaN = NaN"

text \<open>\<^verbatim>\<open>dropna()\<close> with its defaults: drops every row that has a missing cell.\<close>

definition dropna :: "('i, 'l) frame \<Rightarrow> ('i, 'l) frame" where
  "dropna f = f\<lparr>rows := filter (\<lambda>(i, r). NaN \<notin> set r) (rows f)\<rparr>"

section \<open>Effects\<close>

text \<open>
  Objects live in a store and are passed by reference; \<^verbatim>\<open>.copy()\<close> and column selection
  allocate, item assignment and \<^verbatim>\<open>dropna(inplace=True)\<close> update in place.
\<close>

type_synonym 'i store = "('i, string) frame list"

definition alloc :: "'i store \<Rightarrow> ('i, string) frame \<Rightarrow> 'i store \<times> nat" where
  "alloc h f = (h @ [f], length h)"

text \<open>The keyword arguments of \<^verbatim>\<open>mpf.plot\<close>.\<close>

record 'i plot_args =
  pdata :: "('i, string) frame"
  chart_type :: string
  style :: string
  title :: string
  ylabel :: string
  volume :: bool
  show_nontrading :: bool
  figscale :: real
  savefig :: string

type_synonym image = "nat list"

text \<open>What \<^verbatim>\<open>print\<close> writes, with the interpolated values kept apart from the fixed text.\<close>

datatype msg =
    Downloading tickers string string
  | NoDataFound
  | DownloadedOk
  | ErrorOccurred pyexc
  | FetchingInfo string
  | NoDataToPlot
  | CreatingChart string
  | MissingRequired "string list"
  | AvailableColumns "string list"
  | ChartSaved string
  | PlotError pyexc

text \<open>The trace of a call: console output, calls of the provider and of the chart
  library, and files written.\<close>

datatype 'i event =
    Print msg
  | Download tickers string string string
  | Ticker string
  | Plot "'i plot_args"
  | Write string image

fun is_write :: "'i event \<Rightarrow> bool" where
  "is_write (Write path img) = True"
| "is_write e = False"

fun is_plot :: "'i event \<Rightarrow> bool" where
  "is_plot (Plot a) = True"
| "is_plot e = False"

fun apply_event :: "'i event \<Rightarrow> (string \<rightharpoonup> image) \<Rightarrow> (string \<rightharpoonup> image)" where
  "apply_event (Write path img) fs = fs(path \<mapsto> img)"
| "apply_event e fs = fs"

definition files_after :: "'i event list \<Rightarrow> (string \<rightharpoonup> image) \<Rightarrow> (string \<rightharpoonup> image)" where
  "files_after evs fs = fold apply_event evs fs"

section \<open>marketDataGraph.py: create_candlestick_chart\<close>

definition required_cols :: "string list" where
  "required_cols = [''Open'', ''High'', ''Low'', ''Close'', ''Volume'']"

text \<open>The loop \<^verbatim>\<open>for col in plot_data.columns: plot_data[col] = pd.to_numeric(plot_data[col],
  errors='coerce')\<close> on the object at \<open>ref\<close>.\<close>

fun coerce_columns ::
  "(string \<Rightarrow> real option) \<Rightarrow> nat \<Rightarrow> string list \<Rightarrow> 'i store \<Rightarrow> pyexc + 'i store" where
  "coerce_columns p ref [] h = Inr h"
| "coerce_columns p ref (col # cs) h =
     (case getcol (h ! ref) col of
        Inl e \<Rightarrow> Inl e
      | Inr s \<Rightarrow> coerce_columns p ref cs (h[ref := setcol (h ! ref) col (map (to_numeric p) s)]))"

definition mpf_args :: "('i, string) frame \<Rightarrow> string \<Rightarrow> 'i plot_args" where
  "mpf_args plot_data ticker =
     \<lparr>pdata = plot_data, chart_type = ''candle'', style = ''charles'',
      title = ticker @ '' Candlestick Chart'', ylabel = ''Price'', volume = True,
      show_nontrading = False, figscale = 3 / 2,
      savefig = ticker @ ''_candlestick_chart.png''\<rparr>"

text \<open>
  The body of the \<^verbatim>\<open>try\<close> block. The chart library is a parameter: called with the keyword
  arguments, it raises, or draws the image that it saves at \<^verbatim>\<open>savefig\<close>. The result is the
  store, the trace, and the exception raised, if any.
\<close>

definition chart_body ::
  "(string \<Rightarrow> real option) \<Rightarrow> ('i plot_args \<Rightarrow> pyexc + image) \<Rightarrow> 'i store \<Rightarrow> nat \<Rightarrow> string
     \<Rightarrow> 'i store \<times> 'i event list \<times> pyexc option" where
  "chart_body p plot h data ticker =
     (if \<not> list_all (\<lambda>col. col \<in> set (columns (h ! data))) required_cols
      then (h, [Print (MissingRequired required_cols),
                Print (AvailableColumns (columns (h ! data)))], None)
      else
        case getitem_cols (h ! data) required_cols of
          Inl e \<Rightarrow> (h, [], Some e)
        | Inr sel \<Rightarrow>
            let (h1, tmp) = alloc h sel;
                (h2, plot_data) = alloc h1 (h1 ! tmp)
            in case coerce_columns p plot_data (columns (h2 ! plot_data)) h2 of
                 Inl e \<Rightarrow> (h2, [], Some e)
               | Inr h3 \<Rightarrow>
                   let h4 = h3[plot_data := dropna (h3 ! plot_data)];
                       args = mpf_args (h4 ! plot_data) ticker
                   in case plot args of
                        Inl e \<Rightarrow> (h4, [Plot args], Some e)
                      | Inr img \<Rightarrow>
                          (h4, [Plot args, Write (savefig args) img,
                                Print (ChartSaved (savefig args))], None))"

definition create_candlestick_chart ::
  "(string \<Rightarrow> real option) \<Rightarrow> ('i plot_args \<Rightarrow> pyexc + image) \<Rightarrow> 'i store \<Rightarrow> nat \<Rightarrow> string
     \<Rightarrow> 'i store \<times> 'i event list \<times> pyexc option" where
  "create_candlestick_chart p plot h data ticker =
     (if df_empty (h ! data) then (h, [Print NoDataToPlot], None)
      else
        case chart_body p plot h data ticker of
          (h', evs, None) \<Rightarrow> (h', Print (CreatingChart ticker) # evs, None)
        | (h', evs, Some e) \<Rightarrow>
            if caught e
            then (h', Print (CreatingChart ticker) # evs @ [Print (PlotError e)], None)
            else (h', Print (CreatingChart ticker) # evs, Some e))"


subsection \<open>What the renderer is specified to plot\<close>

text \<open>
  Following the specification's words: each of the five columns coerced to numeric, with
  what is not numeric turned into the missing value, then every row dropped that has a
  missing value in one of the five columns; the other rows stay in their order.
\<close>

definition coerce_row :: "(string \<Rightarrow> real option) \<Rightarrow> string list \<Rightarrow> cell list \<Rightarrow> cell list" where
  "coerce_row p cs r = map (\<lambda>c. to_numeric p (cell_at r (index_of c cs))) required_cols"

definition spec_clean :: "(string \<Rightarrow> real option) \<Rightarrow> ('i, string) frame \<Rightarrow> ('i, string) frame" where
  "spec_clean p d =
     \<lparr>columns = required_cols,
      rows = filter (\<lambda>(i, r). NaN \<notin> set r)
               (map (\<lambda>(i, r). (i, coerce_row p (columns d) r)) (rows d))\<rparr>"

definition missing_cols :: "('i, string) frame \<Rightarrow> string list" where
  "missing_cols d = filter (\<lambda>c. c \<notin> set (columns d)) required_cols"

text \<open>Auxiliary functions of the proofs: one pass of the coercion loop on a table and on a
  row, and the table that \<^verbatim>\<open>data[required_cols]\<close> selects.\<close>

definition coerce_col :: "(string \<Rightarrow> real option) \<Rightarrow> string \<Rightarrow> ('i, string) frame \<Rightarrow> ('i, string) frame" where
  "coerce_col p c f =
     f\<lparr>rows := map (\<lambda>(i, r). (i, r[index_of c (columns f) := to_numeric p (cell_at r (index_of c (columns f)))])) (rows f)\<rparr>"

definition coerce_cell :: "(string \<Rightarrow> real option) \<Rightarrow> string list \<Rightarrow> string \<Rightarrow> cell list \<Rightarrow> cell list" where
  "coerce_cell p cols c r = r[index_of c cols := to_numeric p (cell_at r (index_of c cols))]"

definition selection :: "('i, string) frame \<Rightarrow> ('i, string) frame" where
  "selection d =
     \<lparr>columns = required_cols,
      rows = map (\<lambda>(i, r). (i, map (\<lambda>c. cell_at r (index_of c (columns d))) required_cols)) (rows d)\<rparr>"

text \<open>Tables, a parser and chart libraries to run the renderer on.\<close>

definition bars3 :: "(int, string) frame" where
  "bars3 = \<lparr>columns = [''Open'', ''High'', ''Low'', ''Close'', ''Volume''],
            rows = [(1, [Num 10, Num 12, Num 9, Num 11, Num 100]),
                    (2, [Num 11, Num 13, Num 10, Text ''n/a'', Num 50]),
                    (3, [Num 12, Num 14, Text ''11.5'', Num 13, Num 70])]\<rparr>"

definition bars_bad :: "(int, string) frame" where
  "bars_bad = \<lparr>columns = [''Open'', ''High'', ''Low'', ''Close'', ''Volume''],
               rows = [(1, [Num 10, Num 12, Num 9, Text ''n/a'', Num 100])]\<rparr>"

definition bars_no_volume :: "(int, string) frame" where
  "bars_no_volume = \<lparr>columns = [''Open'', ''High'', ''Low'', ''Close''],
                     rows = [(1, [Num 10, Num 12, Num 9, Num 11])]\<rparr>"

definition bars_no_volume_no_rows :: "(int, string) frame" where
  "bars_no_volume_no_rows = \<lparr>columns = [''Open'', ''High'', ''Low'', ''Close''], rows = []\<rparr>"

definition parse_demo :: "string \<Rightarrow> real option" where
  "parse_demo s = (if s = ''11.5'' then Some (23 / 2) else None)"

definition plot_always :: "int plot_args \<Rightarrow> pyexc + image" where
  "plot_always a = Inr [137, 80, 78, 71]"

definition plot_strict :: "int plot_args \<Rightarrow> pyexc + image" where
  "plot_strict a =
     (if rows (pdata a) = [] then Inl (Exception ''ValueError'') else Inr [137, 80, 78, 71])"

section \<open>datetime: dates and their text\<close>

text \<open>
  A date is its proleptic Gregorian ordinal, as \<^verbatim>\<open>date.toordinal\<close> gives it: day 1 is
  0001-01-01 and the last day, 9999-12-31, is 3652059. \<^verbatim>\<open>date - timedelta(days=n)\<close>
  subtracts on ordinals and raises \<^verbatim>\<open>OverflowError\<close> outside that range.
\<close>

definition date_sub_days :: "int \<Rightarrow> int \<Rightarrow> pyexc + int" where
  "date_sub_days d n =
     (if 1 \<le> d - n \<and> d - n \<le> 3652059 then Inr (d - n) else Inl (Exception ''OverflowError''))"

definition days_in_month :: "int \<Rightarrow> int" where
  "days_in_month m = [31, 28, 31, 30, 31, 30, 31, 31, 30, 31, 30, 31] ! nat (m - 1)"

definition days_before_month :: "int \<Rightarrow> int" where
  "days_before_month m = [0, 31, 59, 90, 120, 151, 181, 212, 243, 273, 304, 334] ! nat (m - 1)"

text \<open>The library's conversion of an ordinal to year, month and day.\<close>

definition ord2ymd :: "int \<Rightarrow> int \<times> int \<times> int" where
  "ord2ymd n0 =
     (let n = n0 - 1;
          n400 = n div 146097; na = n mod 146097;
          n100 = na div 36524; nb = na mod 36524;
          n4 = nb div 1461; nc = nb mod 1461;
          n1 = nc div 365; nd = nc mod 365;
          year = n400 * 400 + 1 + n100 * 100 + n4 * 4 + n1
      in if n1 = 4 \<or> n100 = 4 then (year - 1, 12, 31)
         else
           let leapyear = (n1 = 3 \<and> (n4 \<noteq> 24 \<or> n100 = 3));
               month = (nd + 50) div 32;
               preceding = days_before_month month + (if month > 2 \<and> leapyear then 1 else 0)
           in if preceding > nd
              then (year, month - 1,
                    nd - (preceding - (days_in_month (month - 1)
                                        + (if month - 1 = 2 \<and> leapyear then 1 else 0))) + 1)
              else (year, month, nd - preceding + 1))"

definition digit :: "int \<Rightarrow> char" where
  "digit d = ''0123456789'' ! nat d"

definition pad2 :: "int \<Rightarrow> string" where
  "pad2 n = [digit (n div 10 mod 10), digit (n mod 10)]"

definition pad4 :: "int \<Rightarrow> string" where
  "pad4 n = [digit (n div 1000 mod 10), digit (n div 100 mod 10), digit (n div 10 mod 10),
             digit (n mod 10)]"

text \<open>\<^verbatim>\<open>strftime('%Y-%m-%d')\<close>, for the years of four digits.\<close>

definition strftime_ymd :: "int \<Rightarrow> string" where
  "strftime_ymd d = (case ord2ymd d of (y, m, dd) \<Rightarrow> pad4 y @ ''-'' @ pad2 m @ ''-'' @ pad2 dd)"

section \<open>The fetchers of marketData.py and marketDataGraph.py\<close>

text \<open>
  Lines 22 to 25 of marketData.py, the same as lines 27 to 30 of marketDataGraph.py: the
  defaults of the two dates. \<open>clock k\<close> is what the \<open>k\<close>-th call of \<^verbatim>\<open>dt.date.today()\<close>
  during the invocation returns; there is one call for each date left unspecified. The code
  is outside the \<^verbatim>\<open>try\<close> block, so what it raises leaves the function.
\<close>

definition default_dates ::
  "(nat \<Rightarrow> int) \<Rightarrow> string option \<Rightarrow> string option \<Rightarrow> pyexc + (string \<times> string)" where
  "default_dates clock start_date end_date =
     (case start_date of
        None \<Rightarrow>
          (case date_sub_days (clock 0) 365 of
             Inl e \<Rightarrow> Inl e
           | Inr d \<Rightarrow>
               Inr (strftime_ymd d,
                    case end_date of None \<Rightarrow> strftime_ymd (clock 1) | Some e \<Rightarrow> e))
      | Some s \<Rightarrow>
          Inr (s, case end_date of None \<Rightarrow> strftime_ymd (clock 0) | Some e \<Rightarrow> e))"

text \<open>
  What \<^verbatim>\<open>yf.download\<close> returns: a table whose column labels are plain, or the combined
  table of several tickers, whose labels are pairs of a price field and a ticker.
\<close>

datatype 'i dataframe = Flat "('i, string) frame" | Combined "('i, string \<times> string) frame"

fun dataframe_empty :: "'i dataframe \<Rightarrow> bool" where
  "dataframe_empty (Flat f) = df_empty f"
| "dataframe_empty (Combined f) = df_empty f"

fun nrows :: "'i dataframe \<Rightarrow> nat" where
  "nrows (Flat f) = length (rows f)"
| "nrows (Combined f) = length (rows f)"

text \<open>
  \<^verbatim>\<open>data.xs(ticker, axis=1, level=1)\<close>: the columns whose second label is the ticker, under
  their first label, with every row of the table. It raises \<^verbatim>\<open>TypeError\<close> on plain labels
  and \<^verbatim>\<open>KeyError\<close> when no column carries the ticker.
\<close>

fun xs_ticker :: "'i dataframe \<Rightarrow> string \<Rightarrow> pyexc + ('i, string) frame" where
  "xs_ticker (Flat f) t = Inl (Exception ''TypeError'')"
| "xs_ticker (Combined f) t =
     (if t \<in> snd ` set (columns f)
      then Inr \<lparr>columns = map fst (filter (\<lambda>c. snd c = t) (columns f)),
                rows = map (\<lambda>(i, r). (i, map snd (filter (\<lambda>(c, v). snd c = t) (zip (columns f) r))))
                         (rows f)\<rparr>
      else Inl (Exception ''KeyError''))"

text \<open>The result of a fetch: a table, or a \<^verbatim>\<open>dict\<close> from ticker to table (keys in insertion
  order, a later value for a key replacing the earlier one).\<close>

datatype 'i fetched = Table "'i dataframe" | Dict "(string \<times> ('i, string) frame) list"

text \<open>The comprehension \<^verbatim>\<open>{ticker: data.xs(ticker, axis=1, level=1) for ticker in tickers}\<close>.\<close>

fun split_by_ticker ::
  "'i dataframe \<Rightarrow> string list \<Rightarrow> (string \<times> ('i, string) frame) list
     \<Rightarrow> pyexc + (string \<times> ('i, string) frame) list" where
  "split_by_ticker data [] acc = Inr acc"
| "split_by_ticker data (t # ts) acc =
     (case xs_ticker data t of
        Inl e \<Rightarrow> Inl e
      | Inr f \<Rightarrow> split_by_ticker data ts (AList.update t f acc))"

text \<open>\<^verbatim>\<open>pd.DataFrame() if isinstance(tickers, str) else {}\<close>\<close>

definition empty_result :: "tickers \<Rightarrow> 'i fetched" where
  "empty_result tickers = (if is_str tickers then Table (Flat empty_frame) else Dict [])"

subsection \<open>marketData.py: get_historical_data\<close>

text \<open>The provider \<^verbatim>\<open>yf.download\<close> is a parameter: called with the tickers, the two dates
  and the interval, it raises or returns a table.\<close>

definition marketData_get_historical_data ::
  "(nat \<Rightarrow> int) \<Rightarrow> (tickers \<Rightarrow> string \<Rightarrow> string \<Rightarrow> string \<Rightarrow> pyexc + 'i dataframe)
     \<Rightarrow> tickers \<Rightarrow> string option \<Rightarrow> string option \<Rightarrow> string
     \<Rightarrow> 'i event list \<times> (pyexc + 'i dataframe)" where
  "marketData_get_historical_data clock download tickers start_date end_date interval =
     (case default_dates clock start_date end_date of
        Inl e \<Rightarrow> ([], Inl e)
      | Inr (s, e) \<Rightarrow>
          (case download tickers s e interval of
             Inr data \<Rightarrow>
               ([Print (Downloading tickers s e), Download tickers s e interval,
                 Print (if dataframe_empty data then NoDataFound else DownloadedOk)], Inr data)
           | Inl ex \<Rightarrow>
               if caught ex
               then ([Print (Downloading tickers s e), Download tickers s e interval,
                      Print (ErrorOccurred ex)], Inr (Flat empty_frame))
               else ([Print (Downloading tickers s e), Download tickers s e interval], Inl ex)))"

subsection \<open>marketDataGraph.py: get_historical_data\<close>

text \<open>The body of the \<^verbatim>\<open>try\<close> block: the trace and what it returns or raises.\<close>

definition graph_fetch_body ::
  "(tickers \<Rightarrow> string \<Rightarrow> string \<Rightarrow> string \<Rightarrow> pyexc + 'i dataframe)
     \<Rightarrow> tickers \<Rightarrow> string \<Rightarrow> string \<Rightarrow> string \<Rightarrow> 'i event list \<times> (pyexc + 'i fetched)" where
  "graph_fetch_body download tickers s e interval =
     (case download tickers s e interval of
        Inl ex \<Rightarrow> ([Download tickers s e interval], Inl ex)
      | Inr data \<Rightarrow>
          if dataframe_empty data
          then ([Download tickers s e interval, Print NoDataFound], Inr (empty_result tickers))
          else
            (case tickers of
               Many ts \<Rightarrow>
                 if length ts > 1
                 then (case split_by_ticker data ts [] of
                         Inl ex \<Rightarrow> ([Download tickers s e interval, Print DownloadedOk], Inl ex)
                       | Inr data_dict \<Rightarrow>
                           ([Download tickers s e interval, Print DownloadedOk], Inr (Dict data_dict)))
                 else ([Download tickers s e interval, Print DownloadedOk], Inr (Table data))
             | Single t \<Rightarrow>
                 ([Download tickers s e interval, Print DownloadedOk], Inr (Table data))))"

definition marketDataGraph_get_historical_data ::
  "(nat \<Rightarrow> int) \<Rightarrow> (tickers \<Rightarrow> string \<Rightarrow> string \<Rightarrow> string \<Rightarrow> pyexc + 'i dataframe)
     \<Rightarrow> tickers \<Rightarrow> string option \<Rightarrow> string option \<Rightarrow> string
     \<Rightarrow> 'i event list \<times> (pyexc + 'i fetched)" where
  "marketDataGraph_get_historical_data clock download tickers start_date end_date interval =
     (case default_dates clock start_date end_date of
        Inl e \<Rightarrow> ([], Inl e)
      | Inr (s, e) \<Rightarrow>
          (case graph_fetch_body download tickers s e interval of
             (evs, Inr r) \<Rightarrow> (Print (Downloading tickers s e) # evs, Inr r)
           | (evs, Inl ex) \<Rightarrow>
               if caught ex
               then (Print (Downloading tickers s e) # evs @ [Print (ErrorOccurred ex)],
                     Inr (empty_result tickers))
               else (Print (Downloading tickers s e) # evs, Inl ex)))"

subsection \<open>get_ticker_info, the same in both modules\<close>

text \<open>The constructor \<^verbatim>\<open>yf.Ticker\<close> is a parameter; \<open>None\<close> is Python's \<^verbatim>\<open>None\<close>.\<close>

definition get_ticker_info ::
  "(string \<Rightarrow> pyexc + 'h) \<Rightarrow> string \<Rightarrow> 'i event list \<times> (pyexc + 'h option)" where
  "get_ticker_info ticker_ctor ticker =
     (case ticker_ctor ticker of
        Inr ticker_obj \<Rightarrow> ([Print (FetchingInfo ticker), Ticker ticker], Inr (Some ticker_obj))
      | Inl ex \<Rightarrow>
          if caught ex
          then ([Print (FetchingInfo ticker), Ticker ticker, Print (ErrorOccurred ex)], Inr None)
          else ([Print (FetchingInfo ticker), Ticker ticker], Inl ex))"

fun is_download :: "'i event \<Rightarrow> bool" where
  "is_download (Download t s e i) = True"
| "is_download ev = False"

text \<open>
  Following the specification's words, a symbol's own single-symbol table: of the combined
  table, the columns labelled with the symbol, each under its price field, and in every row
  the cells of those columns, under the same index entry.
\<close>

definition ticker_table :: "('i, string \<times> string) frame \<Rightarrow> string \<Rightarrow> ('i, string) frame" where
  "ticker_table c t =
     \<lparr>columns = map fst (filter (\<lambda>label. snd label = t) (columns c)),
      rows = map (\<lambda>row. (fst row,
                           map snd (filter (\<lambda>x. snd (fst x) = t) (zip (columns c) (snd row)))))
               (rows c)\<rparr>"

text \<open>Providers and a combined table to run the fetchers on.\<close>

definition combined2 :: "(int, string \<times> string) frame" where
  "combined2 =
     \<lparr>columns = [(''Close'', ''MSFT''), (''Close'', ''GOOGL''), (''Volume'', ''MSFT''),
                 (''Volume'', ''GOOGL'')],
      rows = [(1, [Num 300, Num 130, Num 1000, Num 2000]),
              (2, [Num 310, NaN, Num 1100, NaN]),
              (3, [Num 320, Num 140, Num 1200, Num 2200])]\<rparr>"

definition download_fails :: "tickers \<Rightarrow> string \<Rightarrow> string \<Rightarrow> string \<Rightarrow> pyexc + int dataframe" where
  "download_fails t s e i = Inl (Exception ''ConnectionError'')"

definition download_combined :: "tickers \<Rightarrow> string \<Rightarrow> string \<Rightarrow> string \<Rightarrow> pyexc + int dataframe" where
  "download_combined t s e i = Inr (Combined combined2)"

definition download_nothing :: "tickers \<Rightarrow> string \<Rightarrow> string \<Rightarrow> string \<Rightarrow> pyexc + int dataframe" where
  "download_nothing t s e i = Inr (Flat empty_frame)"

definition ticker_fails :: "string \<Rightarrow> pyexc + nat" where
  "ticker_fails t = Inl (Exception ''ConnectionError'')"

section \<open>The coercion loop and the rows that reach the chart library\<close>

lemma columns_coerce_col [simp]: "columns (coerce_col p c f) = columns f"
  by (simp add: coerce_col_def)

lemma setcol_getcol:
  assumes "c \<in> set (columns f)"
  shows "getcol f c = Inr s \<Longrightarrow> setcol f c (map (to_numeric p) s) = coerce_col p c f"
  using assms
  by (auto simp: getcol_def setcol_def coerce_col_def zip_map2 zip_same_conv_map split_def comp_def)

lemma coerce_columns_store:
  "ref < length h \<Longrightarrow> set cs \<subseteq> set (columns (h ! ref)) \<Longrightarrow>
   coerce_columns p ref cs h = Inr (h[ref := fold (coerce_col p) cs (h ! ref)])"
proof (induction cs arbitrary: h)
  case Nil
  then show ?case by simp
next
  case (Cons c cs)
  have c: "c \<in> set (columns (h ! ref))" using Cons.prems by simp
  then obtain s where s: "getcol (h ! ref) c = Inr s" by (auto simp: getcol_def)
  let ?h = "h[ref := coerce_col p c (h ! ref)]"
  have "coerce_columns p ref cs ?h = Inr (?h[ref := fold (coerce_col p) cs (?h ! ref)])"
    using Cons.prems by (intro Cons.IH) auto
  then show ?case using s c Cons.prems by (simp add: setcol_getcol)
qed

lemma row5: "length r = 5 \<Longrightarrow> \<exists>a b c d e. r = [a, b, c, d, e]"
  by (auto simp: length_Suc_conv eval_nat_numeral)

lemma coerce_col_alt:
  "coerce_col p c f = f\<lparr>rows := map (\<lambda>(i, r). (i, coerce_cell p (columns f) c r)) (rows f)\<rparr>"
  by (simp add: coerce_col_def coerce_cell_def)

lemma fold_coerce_col:
  "fold (coerce_col p) cs f =
     f\<lparr>rows := map (\<lambda>(i, r). (i, fold (coerce_cell p (columns f)) cs r)) (rows f)\<rparr>"
proof (induction cs arbitrary: f)
  case Nil
  then show ?case by (simp add: split_def)
next
  case (Cons c cs)
  show ?case
    by (simp add: Cons.IH) (simp add: coerce_col_alt split_def comp_def)
qed

lemma fold_coerce_cell_required:
  "length r = 5 \<Longrightarrow> fold (coerce_cell p required_cols) required_cols r = map (to_numeric p) r"
  by (auto simp: required_cols_def coerce_cell_def cell_at_def dest!: row5)

lemma fold_coerce_required:
  assumes "columns f = required_cols" and "list_all (\<lambda>r. length (snd r) = 5) (rows f)"
  shows "fold (coerce_col p) required_cols f = f\<lparr>rows := map (\<lambda>(i, r). (i, map (to_numeric p) r)) (rows f)\<rparr>"
proof -
  have "map (\<lambda>(i, r). (i, fold (coerce_cell p required_cols) required_cols r)) (rows f)
      = map (\<lambda>(i, r). (i, map (to_numeric p) r)) (rows f)"
    using assms(2) by (intro map_cong) (auto simp: list_all_iff fold_coerce_cell_required)
  then show ?thesis by (simp add: fold_coerce_col assms(1))
qed

lemma getitem_required:
  "list_all (\<lambda>c. c \<in> set (columns d)) required_cols \<Longrightarrow> getitem_cols d required_cols = Inr (selection d)"
  by (simp add: getitem_cols_def selection_def)

lemma selection_rows5: "list_all (\<lambda>r. length (snd r) = 5) (rows (selection d))"
  by (auto simp: selection_def list_all_iff required_cols_def)

lemma clean_selection:
  "dropna (fold (coerce_col p) required_cols (selection d)) = spec_clean p d"
proof -
  have "fold (coerce_col p) required_cols (selection d)
      = (selection d)\<lparr>rows := map (\<lambda>(i, r). (i, map (to_numeric p) r)) (rows (selection d))\<rparr>"
    by (rule fold_coerce_required) (simp_all add: selection_rows5, simp add: selection_def)
  then show ?thesis
    by (simp add: dropna_def spec_clean_def selection_def coerce_row_def split_def comp_def)
qed

lemma coerce_plot_data:
  "coerce_columns p (Suc (length h)) required_cols (h @ [selection d, selection d])
     = Inr (h @ [selection d, fold (coerce_col p) required_cols (selection d)])"
proof -
  let ?h2 = "h @ [selection d, selection d]"
  have nth: "?h2 ! Suc (length h) = selection d"
    by (simp add: nth_append)
  have "coerce_columns p (Suc (length h)) required_cols ?h2
      = Inr (?h2[Suc (length h) := fold (coerce_col p) required_cols (?h2 ! Suc (length h))])"
    by (rule coerce_columns_store) (simp_all add: nth, simp add: selection_def)
  then show ?thesis by (simp add: nth list_update_append)
qed

lemma chart_body_ok:
  assumes "list_all (\<lambda>c. c \<in> set (columns (h ! data))) required_cols"
  shows "chart_body p plot h data ticker =
     (let args = mpf_args (spec_clean p (h ! data)) ticker;
          h' = h @ [selection (h ! data), spec_clean p (h ! data)]
      in case plot args of
           Inl e \<Rightarrow> (h', [Plot args], Some e)
         | Inr img \<Rightarrow> (h', [Plot args, Write (savefig args) img, Print (ChartSaved (savefig args))], None))"
proof -
  have cols: "columns (selection (h ! data)) = required_cols" by (simp add: selection_def)
  show ?thesis
    using assms
    by (simp add: chart_body_def getitem_required alloc_def nth_append cols coerce_plot_data
        list_update_append clean_selection Let_def split: sum.splits)
qed

lemma chart_ok:
  assumes "\<not> df_empty (h ! data)" "list_all (\<lambda>c. c \<in> set (columns (h ! data))) required_cols"
  shows "create_candlestick_chart p plot h data ticker =
     (let args = mpf_args (spec_clean p (h ! data)) ticker;
          h' = h @ [selection (h ! data), spec_clean p (h ! data)]
      in case plot args of
           Inl e \<Rightarrow> if caught e
                    then (h', [Print (CreatingChart ticker), Plot args, Print (PlotError e)], None)
                    else (h', [Print (CreatingChart ticker), Plot args], Some e)
         | Inr img \<Rightarrow> (h', [Print (CreatingChart ticker), Plot args, Write (savefig args) img,
                            Print (ChartSaved (savefig args))], None))"
  using assms
  by (simp add: create_candlestick_chart_def chart_body_ok Let_def split: sum.splits)

lemma chart_missing:
  assumes "\<not> df_empty (h ! data)" "\<not> list_all (\<lambda>c. c \<in> set (columns (h ! data))) required_cols"
  shows "create_candlestick_chart p plot h data ticker =
     (h, [Print (CreatingChart ticker), Print (MissingRequired required_cols),
          Print (AvailableColumns (columns (h ! data)))], None)"
  using assms by (simp add: create_candlestick_chart_def chart_body_def)

lemma chart_empty:
  assumes "df_empty (h ! data)"
  shows "create_candlestick_chart p plot h data ticker = (h, [Print NoDataToPlot], None)"
  using assms by (simp add: create_candlestick_chart_def)


lemma spec_clean_one_bad_row:
  assumes "rows d = xs @ (i, r) # ys"
    and "list_all (\<lambda>x. NaN \<notin> set (coerce_row p (columns d) (snd x))) (xs @ ys)"
    and "NaN \<in> set (coerce_row p (columns d) r)"
  shows "rows (spec_clean p d) = map (\<lambda>(i, r). (i, coerce_row p (columns d) r)) (xs @ ys)"
proof -
  have keep: "filter (\<lambda>(i, r). NaN \<notin> set r) (map (\<lambda>(i, r). (i, coerce_row p (columns d) r)) zs)
      = map (\<lambda>(i, r). (i, coerce_row p (columns d) r)) zs"
    if "list_all (\<lambda>x. NaN \<notin> set (coerce_row p (columns d) (snd x))) zs" for zs
    using that by (induction zs) (auto simp: split_def)
  have "list_all (\<lambda>x. NaN \<notin> set (coerce_row p (columns d) (snd x))) xs"
    and "list_all (\<lambda>x. NaN \<notin> set (coerce_row p (columns d) (snd x))) ys"
    using assms(2) by simp_all
  then show ?thesis
    using assms(1,3) by (simp add: spec_clean_def keep)
qed

lemma text_close_is_dropped:
  assumes "cell_at r (index_of ''Close'' cs) = Text s" and "p s = None"
  shows "NaN \<in> set (coerce_row p cs r)"
  using assms by (simp add: coerce_row_def required_cols_def)

section \<open>Claims about create_candlestick_chart\<close>

text \<open>
  C1. For a table that has the five columns Open, High, Low, Close and Volume, the renderer
  calls the chart library once, on the table of those five columns in which every cell is
  coerced to numeric (what is not numeric becomes missing) and from which exactly the rows
  with a missing value in one of the five columns are dropped, the others staying in their
  order. In the example, the one row whose Close is not numeric is dropped and the
  other two rows are drawn.
\<close>

theorem C1_cleaned_rows_reach_the_chart_library:
  assumes "wf_frame (h ! data)" and "\<not> df_empty (h ! data)"
    and "set required_cols \<subseteq> set (columns (h ! data))"
  shows "filter is_plot (fst (snd (create_candlestick_chart p plot h data ticker)))
       = [Plot (mpf_args (spec_clean p (h ! data)) ticker)]
     \<and> (\<forall>xs i r ys s.
          rows (h ! data) = xs @ (i, r) # ys
          \<and> list_all (\<lambda>x. NaN \<notin> set (coerce_row p (columns (h ! data)) (snd x))) (xs @ ys)
          \<and> cell_at r (index_of ''Close'' (columns (h ! data))) = Text s \<and> p s = None
          \<longrightarrow> rows (spec_clean p (h ! data))
              = map (\<lambda>(i, r). (i, coerce_row p (columns (h ! data)) r)) (xs @ ys))"
proof -
  have "list_all (\<lambda>c. c \<in> set (columns (h ! data))) required_cols"
    using assms(3) by (auto simp: list_all_iff)
  then have plotted: "filter is_plot (fst (snd (create_candlestick_chart p plot h data ticker)))
       = [Plot (mpf_args (spec_clean p (h ! data)) ticker)]"
    using assms(2) by (simp add: chart_ok Let_def split: sum.splits)
  have "rows (spec_clean p (h ! data))
      = map (\<lambda>(i, r). (i, coerce_row p (columns (h ! data)) r)) (xs @ ys)"
    if "rows (h ! data) = xs @ (i, r) # ys"
      and "list_all (\<lambda>x. NaN \<notin> set (coerce_row p (columns (h ! data)) (snd x))) (xs @ ys)"
      and "cell_at r (index_of ''Close'' (columns (h ! data))) = Text s" and "p s = None"
    for xs i r ys s
  proof -
    have "NaN \<in> set (coerce_row p (columns (h ! data)) r)"
      using that(3,4) by (rule text_close_is_dropped)
    with that(1,2) show ?thesis by (rule spec_clean_one_bad_row)
  qed
  then show ?thesis using plotted by blast
qed

theorem C1_witness:
  "wf_frame ([bars3] ! 0) \<and> \<not> df_empty ([bars3] ! 0)
   \<and> set required_cols \<subseteq> set (columns ([bars3] ! 0))
   \<and> map (\<lambda>e. case e of Plot a \<Rightarrow> rows (pdata a) | _ \<Rightarrow> [])
        (filter is_plot (fst (snd (create_candlestick_chart parse_demo plot_always [bars3] 0 ''AAPL''))))
     = [[(1, [Num 10, Num 12, Num 9, Num 11, Num 100]),
         (3, [Num 12, Num 14, Num (23 / 2), Num 13, Num 70])]]"
proof -
  have a: "wf_frame ([bars3] ! 0)"
    by (simp add: wf_frame_def bars3_def)
  have b: "\<not> df_empty ([bars3] ! 0)"
    by (simp add: df_empty_def bars3_def)
  have c: "set required_cols \<subseteq> set (columns ([bars3] ! 0))"
    by (simp add: required_cols_def bars3_def)
  have d: "rows (spec_clean parse_demo bars3)
      = [(1, [Num 10, Num 12, Num 9, Num 11, Num 100]),
         (3, [Num 12, Num 14, Num (23 / 2), Num 13, Num 70])]"
    by (simp add: spec_clean_def coerce_row_def required_cols_def bars3_def cell_at_def parse_demo_def)
  show ?thesis
    using a b c d
      C1_cleaned_rows_reach_the_chart_library [OF a b c, of parse_demo plot_always "''AAPL''"]
    by (simp add: mpf_args_def)
qed

text \<open>
  C2, as the specification states it: for a table that lacks one of the five columns, the
  renderer emits a diagnostic that lists the missing columns. It does not: for a table with
  rows that lacks only Volume, the diagnostic lists all five required columns, and for a
  table without rows that lacks Volume, the only output is that there is no data to plot.
\<close>

theorem C2_counterexample:
  "missing_cols bars_no_volume = [''Volume'']
   \<and> fst (snd (create_candlestick_chart parse_demo plot_always [bars_no_volume] 0 ''AAPL''))
     = [Print (CreatingChart ''AAPL''),
        Print (MissingRequired [''Open'', ''High'', ''Low'', ''Close'', ''Volume'']),
        Print (AvailableColumns [''Open'', ''High'', ''Low'', ''Close''])]
   \<and> Print (MissingRequired (missing_cols bars_no_volume))
       \<notin> set (fst (snd (create_candlestick_chart parse_demo plot_always [bars_no_volume] 0 ''AAPL'')))
   \<and> missing_cols bars_no_volume_no_rows = [''Volume'']
   \<and> fst (snd (create_candlestick_chart parse_demo plot_always [bars_no_volume_no_rows] 0 ''AAPL''))
     = [Print NoDataToPlot]"
  by (simp add: missing_cols_def create_candlestick_chart_def chart_body_def df_empty_def
      required_cols_def bars_no_volume_def bars_no_volume_no_rows_def)

text \<open>
  C2, amended. For a table with at least one column and one row that lacks one of the five
  columns, the renderer stops before any plotting: after the line announcing the chart it
  prints the list of all five required columns and then the columns that the table has,
  calls the chart library not at all, writes no file and leaves the store as it was.
\<close>

theorem C2_missing_column_aborts_before_plotting:
  assumes "\<not> df_empty (h ! data)" and "\<not> set required_cols \<subseteq> set (columns (h ! data))"
  shows "create_candlestick_chart p plot h data ticker
       = (h, [Print (CreatingChart ticker), Print (MissingRequired required_cols),
              Print (AvailableColumns (columns (h ! data)))], None)
     \<and> filter is_plot (fst (snd (create_candlestick_chart p plot h data ticker))) = []
     \<and> filter is_write (fst (snd (create_candlestick_chart p plot h data ticker))) = []
     \<and> files_after (fst (snd (create_candlestick_chart p plot h data ticker))) fs = fs"
proof -
  have "\<not> list_all (\<lambda>c. c \<in> set (columns (h ! data))) required_cols"
    using assms(2) by (auto simp: list_all_iff)
  then show ?thesis
    using assms(1) by (simp add: chart_missing files_after_def)
qed

theorem C2_witness:
  "\<not> df_empty ([bars_no_volume] ! 0)
   \<and> \<not> set required_cols \<subseteq> set (columns ([bars_no_volume] ! 0))
   \<and> create_candlestick_chart parse_demo plot_always [bars_no_volume] 0 ''AAPL''
     = ([bars_no_volume],
        [Print (CreatingChart ''AAPL''), Print (MissingRequired required_cols),
         Print (AvailableColumns [''Open'', ''High'', ''Low'', ''Close''])], None)
   \<and> files_after (fst (snd (create_candlestick_chart parse_demo plot_always [bars_no_volume] 0 ''AAPL'')))
        Map.empty = Map.empty"
proof -
  have a: "\<not> df_empty ([bars_no_volume] ! 0)"
    by (simp add: df_empty_def bars_no_volume_def)
  have b: "\<not> set required_cols \<subseteq> set (columns ([bars_no_volume] ! 0))"
    by (simp add: required_cols_def bars_no_volume_def)
  have c: "columns bars_no_volume = [''Open'', ''High'', ''Low'', ''Close'']"
    by (simp add: bars_no_volume_def)
  show ?thesis
    using a b c
      C2_missing_column_aborts_before_plotting [OF a b, of parse_demo plot_always "''AAPL''" Map.empty]
    by (simp add: files_after_def)
qed

text \<open>
  C3. A table that is empty before cleaning makes the renderer print that there is no data
  to plot and return at once. A table that becomes empty after coercion and row dropping is
  passed to the chart library without rows; the library raises on a table without rows, as
  mpf.plot does, and the renderer catches that and prints that an error occurred while
  plotting. In both cases no file is written and a diagnostic is printed.
\<close>

theorem C3_empty_table_aborts_without_image:
  assumes "\<forall>a. rows (pdata a) = [] \<longrightarrow> (\<exists>m. plot a = Inl (Exception m))"
    and "df_empty (h ! data)
         \<or> (set required_cols \<subseteq> set (columns (h ! data)) \<and> df_empty (spec_clean p (h ! data)))"
  shows "filter is_write (fst (snd (create_candlestick_chart p plot h data ticker))) = []
     \<and> files_after (fst (snd (create_candlestick_chart p plot h data ticker))) fs = fs
     \<and> snd (snd (create_candlestick_chart p plot h data ticker)) = None
     \<and> (df_empty (h ! data) \<longrightarrow>
          create_candlestick_chart p plot h data ticker = (h, [Print NoDataToPlot], None))
     \<and> (\<not> df_empty (h ! data) \<longrightarrow>
          (\<exists>m. fst (snd (create_candlestick_chart p plot h data ticker))
             = [Print (CreatingChart ticker), Plot (mpf_args (spec_clean p (h ! data)) ticker),
                Print (PlotError (Exception m))]))"
proof (cases "df_empty (h ! data)")
  case True
  then show ?thesis
    by (simp add: chart_empty files_after_def)
next
  case ne: False
  then have sub: "set required_cols \<subseteq> set (columns (h ! data))"
    and cl: "df_empty (spec_clean p (h ! data))"
    using assms(2) by simp_all
  have all: "list_all (\<lambda>c. c \<in> set (columns (h ! data))) required_cols"
    using sub by (auto simp: list_all_iff)
  have "rows (spec_clean p (h ! data)) = []"
    using cl by (simp add: df_empty_def spec_clean_def required_cols_def)
  then have "rows (pdata (mpf_args (spec_clean p (h ! data)) ticker)) = []"
    by (simp add: mpf_args_def)
  then obtain m where pl: "plot (mpf_args (spec_clean p (h ! data)) ticker) = Inl (Exception m)"
    using assms(1) by blast
  have evs: "fst (snd (create_candlestick_chart p plot h data ticker))
        = [Print (CreatingChart ticker), Plot (mpf_args (spec_clean p (h ! data)) ticker),
           Print (PlotError (Exception m))]"
    by (simp add: chart_ok [OF ne all] pl Let_def)
  have rs: "snd (snd (create_candlestick_chart p plot h data ticker)) = None"
    by (simp add: chart_ok [OF ne all] pl Let_def)
  show ?thesis
    using ne rs by (simp add: evs files_after_def)
qed

theorem C3_witness:
  "plot_strict (mpf_args \<lparr>columns = required_cols, rows = []\<rparr> ''AAPL'')
     = Inl (Exception ''ValueError'')
   \<and> df_empty ([bars_no_volume_no_rows] ! 0)
   \<and> create_candlestick_chart parse_demo plot_strict [bars_no_volume_no_rows] 0 ''AAPL''
     = ([bars_no_volume_no_rows], [Print NoDataToPlot], None)
   \<and> \<not> df_empty ([bars_bad] ! 0) \<and> set required_cols \<subseteq> set (columns ([bars_bad] ! 0))
   \<and> df_empty (spec_clean parse_demo ([bars_bad] ! 0))
   \<and> filter is_write (fst (snd (create_candlestick_chart parse_demo plot_strict [bars_bad] 0 ''AAPL'')))
     = []
   \<and> files_after (fst (snd (create_candlestick_chart parse_demo plot_strict [bars_bad] 0 ''AAPL'')))
        Map.empty = Map.empty
   \<and> (\<exists>m. fst (snd (create_candlestick_chart parse_demo plot_strict [bars_bad] 0 ''AAPL''))
          = [Print (CreatingChart ''AAPL''),
             Plot (mpf_args \<lparr>columns = required_cols, rows = []\<rparr> ''AAPL''),
             Print (PlotError (Exception m))])"
proof -
  have lib: "\<forall>a. rows (pdata a) = [] \<longrightarrow> (\<exists>m. plot_strict a = Inl (Exception m))"
    by (simp add: plot_strict_def)
  have a: "df_empty ([bars_no_volume_no_rows] ! 0)"
    by (simp add: df_empty_def bars_no_volume_no_rows_def)
  have b: "\<not> df_empty ([bars_bad] ! 0)"
    by (simp add: df_empty_def bars_bad_def)
  have c: "set required_cols \<subseteq> set (columns ([bars_bad] ! 0))"
    by (simp add: required_cols_def bars_bad_def)
  have d: "spec_clean parse_demo bars_bad = \<lparr>columns = required_cols, rows = []\<rparr>"
    by (simp add: spec_clean_def coerce_row_def required_cols_def bars_bad_def cell_at_def
        parse_demo_def)
  have e: "df_empty (spec_clean parse_demo ([bars_bad] ! 0))"
    by (simp add: d df_empty_def)
  have one: "create_candlestick_chart parse_demo plot_strict [bars_no_volume_no_rows] 0 ''AAPL''
     = ([bars_no_volume_no_rows], [Print NoDataToPlot], None)"
    using a C3_empty_table_aborts_without_image [where plot = plot_strict
        and h = "[bars_no_volume_no_rows]" and data = 0 and p = parse_demo
        and ticker = "''AAPL''" and fs = Map.empty, OF lib]
    by simp
  have two: "filter is_write (fst (snd (create_candlestick_chart parse_demo plot_strict [bars_bad] 0 ''AAPL'')))
       = []
     \<and> files_after (fst (snd (create_candlestick_chart parse_demo plot_strict [bars_bad] 0 ''AAPL'')))
        Map.empty = Map.empty
     \<and> (\<exists>m. fst (snd (create_candlestick_chart parse_demo plot_strict [bars_bad] 0 ''AAPL''))
          = [Print (CreatingChart ''AAPL''),
             Plot (mpf_args \<lparr>columns = required_cols, rows = []\<rparr> ''AAPL''),
             Print (PlotError (Exception m))])"
    using b c e d C3_empty_table_aborts_without_image [where plot = plot_strict
        and h = "[bars_bad]" and data = 0 and p = parse_demo
        and ticker = "''AAPL''" and fs = Map.empty, OF lib]
    by simp
  have strict: "plot_strict (mpf_args \<lparr>columns = required_cols, rows = []\<rparr> ''AAPL'')
     = Inl (Exception ''ValueError'')"
    by (simp add: plot_strict_def mpf_args_def)
  show ?thesis
    using strict a b c e one two by blast
qed

text \<open>
  C8. On a successful render (the chart library returns without raising) the trace of the
  call holds exactly one file write. The library is asked for a candlestick chart with the
  volume panel, the title "<symbol> Candlestick Chart", the y-axis label "Price",
  non-trading periods not shown, saved at "<symbol>_candlestick_chart.png" (a relative
  path, so in the current working directory); the file of that name holds the new image
  afterwards, whatever it held before, and no other file changes.
\<close>

theorem C8_successful_render_writes_one_file:
  assumes "wf_frame (h ! data)" and "\<not> df_empty (h ! data)"
    and "set required_cols \<subseteq> set (columns (h ! data))"
    and "plot (mpf_args (spec_clean p (h ! data)) ticker) = Inr img"
  shows "\<exists>args.
      fst (snd (create_candlestick_chart p plot h data ticker))
        = [Print (CreatingChart ticker), Plot args,
           Write (ticker @ ''_candlestick_chart.png'') img,
           Print (ChartSaved (ticker @ ''_candlestick_chart.png''))]
      \<and> length (filter is_write (fst (snd (create_candlestick_chart p plot h data ticker)))) = 1
      \<and> pdata args = spec_clean p (h ! data)
      \<and> chart_type args = ''candle'' \<and> volume args = True
      \<and> title args = ticker @ '' Candlestick Chart'' \<and> ylabel args = ''Price''
      \<and> show_nontrading args = False
      \<and> savefig args = ticker @ ''_candlestick_chart.png''
      \<and> files_after (fst (snd (create_candlestick_chart p plot h data ticker))) fs
        = fs(ticker @ ''_candlestick_chart.png'' \<mapsto> img)"
proof -
  have all: "list_all (\<lambda>c. c \<in> set (columns (h ! data))) required_cols"
    using assms(3) by (auto simp: list_all_iff)
  have sf: "savefig (mpf_args (spec_clean p (h ! data)) ticker) = ticker @ ''_candlestick_chart.png''"
    by (simp add: mpf_args_def)
  have evs: "fst (snd (create_candlestick_chart p plot h data ticker))
        = [Print (CreatingChart ticker), Plot (mpf_args (spec_clean p (h ! data)) ticker),
           Write (ticker @ ''_candlestick_chart.png'') img,
           Print (ChartSaved (ticker @ ''_candlestick_chart.png''))]"
    by (simp add: chart_ok [OF assms(2) all] assms(4) Let_def sf)
  show ?thesis
    by (rule exI [of _ "mpf_args (spec_clean p (h ! data)) ticker"])
      (simp add: evs files_after_def, simp add: mpf_args_def)
qed

theorem C8_witness:
  "wf_frame ([bars3] ! 0) \<and> \<not> df_empty ([bars3] ! 0)
   \<and> set required_cols \<subseteq> set (columns ([bars3] ! 0))
   \<and> plot_always (mpf_args (spec_clean parse_demo ([bars3] ! 0)) ''AAPL'') = Inr [137, 80, 78, 71]
   \<and> length (filter is_write
        (fst (snd (create_candlestick_chart parse_demo plot_always [bars3] 0 ''AAPL'')))) = 1
   \<and> files_after (fst (snd (create_candlestick_chart parse_demo plot_always [bars3] 0 ''AAPL'')))
        [''AAPL_candlestick_chart.png'' \<mapsto> [0]]
     = [''AAPL_candlestick_chart.png'' \<mapsto> [137, 80, 78, 71]]"
proof -
  have a: "wf_frame ([bars3] ! 0)"
    by (simp add: wf_frame_def bars3_def)
  have b: "\<not> df_empty ([bars3] ! 0)"
    by (simp add: df_empty_def bars3_def)
  have c: "set required_cols \<subseteq> set (columns ([bars3] ! 0))"
    by (simp add: required_cols_def bars3_def)
  have d: "plot_always (mpf_args (spec_clean parse_demo ([bars3] ! 0)) ''AAPL'') = Inr [137, 80, 78, 71]"
    by (simp add: plot_always_def)
  show ?thesis
    using a b c d
      C8_successful_render_writes_one_file [where h = "[bars3]" and data = 0
        and p = parse_demo and plot = plot_always and ticker = "''AAPL''"
        and img = "[137, 80, 78, 71]" and fs = "[''AAPL_candlestick_chart.png'' \<mapsto> [0]]"]
    by auto
qed

text \<open>
  C9. The renderer leaves its input table unchanged: every object that was in the store
  before the call, the caller's table among them, is the same after the call. Coercion and
  row dropping update only the copy, which is allocated during the call.
\<close>

theorem C9_input_table_unchanged:
  "take (length h) (fst (create_candlestick_chart p plot h data ticker)) = h
   \<and> (data < length h \<longrightarrow> fst (create_candlestick_chart p plot h data ticker) ! data = h ! data)"
proof -
  have 1: "take (length h) (fst (create_candlestick_chart p plot h data ticker)) = h"
  proof (cases "df_empty (h ! data)")
    case True
    then show ?thesis by (simp add: chart_empty)
  next
    case ne: False
    show ?thesis
    proof (cases "list_all (\<lambda>c. c \<in> set (columns (h ! data))) required_cols")
      case True
      show ?thesis
        by (simp add: chart_ok [OF ne True] Let_def split: sum.splits)
    next
      case False
      show ?thesis by (simp add: chart_missing [OF ne False])
    qed
  qed
  have "fst (create_candlestick_chart p plot h data ticker) ! data = h ! data" if "data < length h"
  proof -
    have "take (length h) (fst (create_candlestick_chart p plot h data ticker)) ! data = h ! data"
      by (simp only: 1)
    then show ?thesis using that by simp
  qed
  then show ?thesis using 1 by simp
qed

theorem C9_witness:
  "(0::nat) < length [bars3]
   \<and> fst (create_candlestick_chart parse_demo plot_always [bars3] 0 ''AAPL'') ! 0 = bars3
   \<and> rows (fst (create_candlestick_chart parse_demo plot_always [bars3] 0 ''AAPL'') ! 2)
     = [(1, [Num 10, Num 12, Num 9, Num 11, Num 100]),
        (3, [Num 12, Num 14, Num (23 / 2), Num 13, Num 70])]"
proof -
  have a: "\<not> df_empty ([bars3] ! 0)"
    by (simp add: df_empty_def bars3_def)
  have b: "list_all (\<lambda>c. c \<in> set (columns ([bars3] ! 0))) required_cols"
    by (simp add: required_cols_def bars3_def)
  have d: "rows (spec_clean parse_demo bars3)
      = [(1, [Num 10, Num 12, Num 9, Num 11, Num 100]),
         (3, [Num 12, Num 14, Num (23 / 2), Num 13, Num 70])]"
    by (simp add: spec_clean_def coerce_row_def required_cols_def bars3_def cell_at_def parse_demo_def)
  have e: "rows (fst (create_candlestick_chart parse_demo plot_always [bars3] 0 ''AAPL'') ! 2)
      = rows (spec_clean parse_demo bars3)"
    by (simp add: chart_ok [OF a b] Let_def plot_always_def)
  show ?thesis
    using d e C9_input_table_unchanged [of "[bars3]" parse_demo plot_always 0 "''AAPL''"]
    by simp
qed


section \<open>Claims about the fetchers\<close>

lemma xs_ticker_rows:
  "xs_ticker data t = Inr f \<Longrightarrow> length (rows f) = nrows data"
  by (cases data) (auto split: if_splits)

lemma split_by_ticker_map_of:
  "split_by_ticker data ts acc = Inr m \<Longrightarrow>
   map_of m t = (if t \<in> set ts
                 then (case xs_ticker data t of Inr f \<Rightarrow> Some f | Inl e \<Rightarrow> None)
                 else map_of acc t)"
proof (induction ts arbitrary: acc)
  case Nil
  then show ?case by simp
next
  case (Cons a ts)
  then obtain f where f: "xs_ticker data a = Inr f"
    and rest: "split_by_ticker data ts (AList.update a f acc) = Inr m"
    by (auto split: sum.splits)
  show ?case
    using Cons.IH [OF rest] f by (auto simp: update_conv')
qed

lemma split_by_ticker_succeeds:
  "split_by_ticker data ts acc = Inr m \<Longrightarrow> t \<in> set ts \<Longrightarrow> \<exists>f. xs_ticker data t = Inr f"
proof (induction ts arbitrary: acc)
  case Nil
  then show ?case by simp
next
  case (Cons a ts)
  then show ?case by (auto split: sum.splits)
qed

lemma split_by_ticker_keys:
  "split_by_ticker data ts acc = Inr m \<Longrightarrow>
   fst ` set m = fst ` set acc \<union> set ts \<and> (distinct (map fst acc) \<longrightarrow> distinct (map fst m))"
proof (induction ts arbitrary: acc)
  case Nil
  then show ?case by simp
next
  case (Cons a ts)
  then obtain f where f: "xs_ticker data a = Inr f"
    and rest: "split_by_ticker data ts (AList.update a f acc) = Inr m"
    by (auto split: sum.splits)
  show ?case
    using Cons.IH [OF rest] by (auto simp: dom_update distinct_update)
qed

lemma graph_fetch_split:
  assumes "1 < length ts" and "default_dates clock sd ed = Inr (s, e)"
    and "download (Many ts) s e iv = Inr data"
    and "snd (marketDataGraph_get_historical_data clock download (Many ts) sd ed iv) = Inr (Dict m)"
    and "m \<noteq> []"
  shows "split_by_ticker data ts [] = Inr m"
proof (cases "dataframe_empty data")
  case True
  then show ?thesis
    using assms
    by (simp add: marketDataGraph_get_historical_data_def graph_fetch_body_def empty_result_def)
next
  case False
  show ?thesis
  proof (cases "split_by_ticker data ts []")
    case (Inl ex)
    then show ?thesis
      using assms False
      by (cases ex)
        (simp_all add: marketDataGraph_get_historical_data_def graph_fetch_body_def empty_result_def)
  next
    case (Inr dd)
    then show ?thesis
      using assms False
      by (simp add: marketDataGraph_get_historical_data_def graph_fetch_body_def)
  qed
qed

lemma xs_ticker_own_table:
  "t \<in> snd ` set (columns c) \<Longrightarrow> xs_ticker (Combined c) t = Inr (ticker_table c t)"
  by (simp add: ticker_table_def split_def)

lemma xs_ticker_succeeds_iff:
  "(\<exists>f. xs_ticker data t = Inr f) \<longleftrightarrow> (\<exists>c. data = Combined c \<and> t \<in> snd ` set (columns c))"
  by (cases data) auto

lemma split_by_ticker_total:
  "\<forall>t \<in> set ts. \<exists>f. xs_ticker data t = Inr f \<Longrightarrow> \<exists>m. split_by_ticker data ts acc = Inr m"
proof (induction ts arbitrary: acc)
  case Nil
  then show ?case by simp
next
  case (Cons a ts)
  then obtain f where f: "xs_ticker data a = Inr f" by auto
  have "\<exists>m. split_by_ticker data ts (AList.update a f acc) = Inr m"
    using Cons.prems by (intro Cons.IH) simp
  then show ?case using f by simp
qed

lemma graph_fetch_nonempty:
  assumes "default_dates clock sd ed = Inr (s, e)"
    and "download (Many ts) s e iv = Inr data"
    and "snd (marketDataGraph_get_historical_data clock download (Many ts) sd ed iv) = Inr (Dict m)"
    and "m \<noteq> []"
  shows "\<not> dataframe_empty data"
proof
  assume "dataframe_empty data"
  then show False
    using assms
    by (simp add: marketDataGraph_get_historical_data_def graph_fetch_body_def empty_result_def)
qed

lemma graph_fetch_returns_split:
  assumes "1 < length ts" and "default_dates clock sd ed = Inr (s, e)"
    and "download (Many ts) s e iv = Inr data" and "\<not> dataframe_empty data"
    and "split_by_ticker data ts [] = Inr m"
  shows "snd (marketDataGraph_get_historical_data clock download (Many ts) sd ed iv) = Inr (Dict m)"
  using assms
  by (simp add: marketDataGraph_get_historical_data_def graph_fetch_body_def
      del: split_by_ticker.simps)

text \<open>
  C4. For a request with a list of more than one symbol, the splitting variant succeeds
  (it returns a mapping that is not the empty one of the failure path) exactly when the
  provider returns a combined table that is not empty and has columns for every requested
  symbol. The mapping then has exactly one entry for each requested symbol and no other;
  the entry of a symbol is that symbol's own single-symbol table (its columns of the
  combined table, under their price fields, with the cells of every row), and it has as
  many rows as the combined table.
\<close>

theorem C4_one_table_per_requested_symbol:
  assumes "1 < length ts" and "default_dates clock sd ed = Inr (s, e)"
    and "download (Many ts) s e iv = Inr data"
  shows "((\<exists>m. snd (marketDataGraph_get_historical_data clock download (Many ts) sd ed iv)
                = Inr (Dict m) \<and> m \<noteq> [])
          \<longleftrightarrow> (\<exists>c. data = Combined c \<and> \<not> df_empty c \<and> set ts \<subseteq> snd ` set (columns c)))
     \<and> (\<forall>m. snd (marketDataGraph_get_historical_data clock download (Many ts) sd ed iv)
                = Inr (Dict m) \<and> m \<noteq> [] \<longrightarrow>
           (\<exists>c. data = Combined c \<and> fst ` set m = set ts \<and> distinct (map fst m)
              \<and> (\<forall>t \<in> set ts. map_of m t = Some (ticker_table c t)
                    \<and> length (rows (ticker_table c t)) = length (rows c))))"
proof -
  let ?G = "snd (marketDataGraph_get_historical_data clock download (Many ts) sd ed iv)"
  obtain t0 where t0: "t0 \<in> set ts"
    using assms(1) by (cases ts) auto
  have ok: "\<exists>c. data = Combined c \<and> \<not> df_empty c \<and> set ts \<subseteq> snd ` set (columns c)
            \<and> fst ` set m = set ts \<and> distinct (map fst m)
            \<and> (\<forall>t \<in> set ts. map_of m t = Some (ticker_table c t)
                  \<and> length (rows (ticker_table c t)) = length (rows c))"
    if res: "?G = Inr (Dict m)" and ne: "m \<noteq> []" for m
  proof -
    have sp: "split_by_ticker data ts [] = Inr m"
      using assms res ne by (rule graph_fetch_split)
    have nonempty: "\<not> dataframe_empty data"
      using assms(2,3) res ne by (rule graph_fetch_nonempty)
    have each: "\<exists>f. xs_ticker data t = Inr f" if "t \<in> set ts" for t
      using split_by_ticker_succeeds [OF sp that] .
    obtain c where c: "data = Combined c"
      using each [OF t0] xs_ticker_succeeds_iff [of data t0] by blast
    have sub: "set ts \<subseteq> snd ` set (columns c)"
    proof
      fix t assume "t \<in> set ts"
      then show "t \<in> snd ` set (columns c)"
        using each [of t] xs_ticker_succeeds_iff [of data t] c by blast
    qed
    have keys: "fst ` set m = set ts \<and> distinct (map fst m)"
      using split_by_ticker_keys [OF sp] by simp
    have own: "map_of m t = Some (ticker_table c t)
        \<and> length (rows (ticker_table c t)) = length (rows c)" if t: "t \<in> set ts" for t
    proof -
      have "t \<in> snd ` set (columns c)"
        using sub t by blast
      then have x: "xs_ticker data t = Inr (ticker_table c t)"
        unfolding c by (rule xs_ticker_own_table)
      have "map_of m t = Some (ticker_table c t)"
        using split_by_ticker_map_of [OF sp, of t] t x by simp
      then show ?thesis by (simp add: ticker_table_def)
    qed
    show ?thesis
      using c nonempty sub keys own by auto
  qed
  have conv: "\<exists>m. ?G = Inr (Dict m) \<and> m \<noteq> []"
    if c: "data = Combined c" and nonempty: "\<not> df_empty c"
      and sub: "set ts \<subseteq> snd ` set (columns c)" for c
  proof -
    have "\<exists>f. xs_ticker data t = Inr f" if "t \<in> set ts" for t
    proof -
      have "t \<in> snd ` set (columns c)"
        using sub that by blast
      then have "xs_ticker data t = Inr (ticker_table c t)"
        unfolding c by (rule xs_ticker_own_table)
      then show ?thesis by blast
    qed
    then have "\<forall>t \<in> set ts. \<exists>f. xs_ticker data t = Inr f"
      by blast
    then obtain m where sp: "split_by_ticker data ts [] = Inr m"
      using split_by_ticker_total by blast
    have ne: "\<not> dataframe_empty data"
      using c nonempty by simp
    have res: "?G = Inr (Dict m)"
      using assms ne sp by (rule graph_fetch_returns_split)
    have "fst ` set m = set ts"
      using split_by_ticker_keys [OF sp] by simp
    then have "m \<noteq> []" using t0 by auto
    then show ?thesis using res by blast
  qed
  show ?thesis
    using ok conv by blast
qed

lemma default_dates_demo:
  "default_dates (\<lambda>k. 739924) None None = Inr (''2025-11-04'', ''2026-11-04'')"
  by (simp add: default_dates_def date_sub_days_def strftime_ymd_def ord2ymd_def Let_def
      pad4_def pad2_def digit_def days_before_month_def days_in_month_def)

lemma split_demo:
  "split_by_ticker (Combined combined2) [''MSFT'', ''GOOGL''] []
   = Inr [(''MSFT'', \<lparr>columns = [''Close'', ''Volume''],
                            rows = [(1, [Num 300, Num 1000]), (2, [Num 310, Num 1100]),
                                    (3, [Num 320, Num 1200])]\<rparr>),
                (''GOOGL'', \<lparr>columns = [''Close'', ''Volume''],
                             rows = [(1, [Num 130, Num 2000]), (2, [NaN, NaN]),
                                     (3, [Num 140, Num 2200])]\<rparr>)]"
  by (simp add: combined2_def)


lemma graph_fetch_demo:
  "snd (marketDataGraph_get_historical_data (\<lambda>k. 739924) download_combined
          (Many [''MSFT'', ''GOOGL'']) None None ''1mo'')
   = Inr (Dict [(''MSFT'', \<lparr>columns = [''Close'', ''Volume''],
                            rows = [(1, [Num 300, Num 1000]), (2, [Num 310, Num 1100]),
                                    (3, [Num 320, Num 1200])]\<rparr>),
                (''GOOGL'', \<lparr>columns = [''Close'', ''Volume''],
                             rows = [(1, [Num 130, Num 2000]), (2, [NaN, NaN]),
                                     (3, [Num 140, Num 2200])]\<rparr>)])"
proof -
  have ne: "\<not> df_empty combined2"
    by (simp add: df_empty_def combined2_def)
  show ?thesis
    by (simp add: marketDataGraph_get_historical_data_def default_dates_demo graph_fetch_body_def
        download_combined_def ne split_demo del: split_by_ticker.simps)
qed


theorem C4_witness:
  "1 < length [''MSFT'', ''GOOGL'']
   \<and> default_dates (\<lambda>k. 739924) None None = Inr (''2025-11-04'', ''2026-11-04'')
   \<and> download_combined (Many [''MSFT'', ''GOOGL'']) ''2025-11-04'' ''2026-11-04'' ''1mo''
     = Inr (Combined combined2)
   \<and> \<not> df_empty combined2 \<and> set [''MSFT'', ''GOOGL''] \<subseteq> snd ` set (columns combined2)
   \<and> (\<exists>m. snd (marketDataGraph_get_historical_data (\<lambda>k. 739924) download_combined
                 (Many [''MSFT'', ''GOOGL'']) None None ''1mo'') = Inr (Dict m)
          \<and> m \<noteq> [] \<and> fst ` set m = {''MSFT'', ''GOOGL''} \<and> distinct (map fst m)
          \<and> map_of m ''MSFT''
              = Some \<lparr>columns = [''Close'', ''Volume''],
                      rows = [(1, [Num 300, Num 1000]), (2, [Num 310, Num 1100]),
                              (3, [Num 320, Num 1200])]\<rparr>
          \<and> map_of m ''GOOGL''
              = Some \<lparr>columns = [''Close'', ''Volume''],
                      rows = [(1, [Num 130, Num 2000]), (2, [NaN, NaN]),
                              (3, [Num 140, Num 2200])]\<rparr>)
   \<and> \<not> (\<exists>m. snd (marketDataGraph_get_historical_data (\<lambda>k. 739924) download_combined
                   (Many [''msft'', ''googl'']) None None ''1mo'') = Inr (Dict m) \<and> m \<noteq> [])"
proof -
  let ?G = "snd (marketDataGraph_get_historical_data (\<lambda>k. 739924) download_combined
                 (Many [''MSFT'', ''GOOGL'']) None None ''1mo'')"
  have a: "1 < length [''MSFT'', ''GOOGL'']" by simp
  have b: "download_combined (Many [''MSFT'', ''GOOGL'']) ''2025-11-04'' ''2026-11-04'' ''1mo''
      = Inr (Combined combined2)"
    by (simp add: download_combined_def)
  have c: "\<not> df_empty combined2"
    by (simp add: df_empty_def combined2_def)
  have d: "set [''MSFT'', ''GOOGL''] \<subseteq> snd ` set (columns combined2)"
    by (simp add: combined2_def)
  have tm: "ticker_table combined2 ''MSFT''
      = \<lparr>columns = [''Close'', ''Volume''],
         rows = [(1, [Num 300, Num 1000]), (2, [Num 310, Num 1100]), (3, [Num 320, Num 1200])]\<rparr>"
    by (simp add: ticker_table_def combined2_def)
  have tg: "ticker_table combined2 ''GOOGL''
      = \<lparr>columns = [''Close'', ''Volume''],
         rows = [(1, [Num 130, Num 2000]), (2, [NaN, NaN]), (3, [Num 140, Num 2200])]\<rparr>"
    by (simp add: ticker_table_def combined2_def)
  note split = C4_one_table_per_requested_symbol [where ts = "[''MSFT'', ''GOOGL'']"
      and clock = "\<lambda>k. 739924" and sd = None and ed = None and s = "''2025-11-04''"
      and e = "''2026-11-04''" and download = download_combined and iv = "''1mo''"
      and data = "Combined combined2", OF a default_dates_demo b]
  obtain m where m: "?G = Inr (Dict m)" "m \<noteq> []"
    using split c d by blast
  obtain c' where c': "Combined combined2 = Combined c'"
    and keys: "fst ` set m = set [''MSFT'', ''GOOGL'']" "distinct (map fst m)"
    and own: "\<forall>t \<in> set [''MSFT'', ''GOOGL'']. map_of m t = Some (ticker_table c' t)"
    using split m by blast
  have eq: "c' = combined2" using c' by simp
  have msft: "map_of m ''MSFT'' = Some (ticker_table combined2 ''MSFT'')"
    using own eq by simp
  have googl: "map_of m ''GOOGL'' = Some (ticker_table combined2 ''GOOGL'')"
    using own eq by simp
  have first: "\<exists>m. ?G = Inr (Dict m)
          \<and> m \<noteq> [] \<and> fst ` set m = {''MSFT'', ''GOOGL''} \<and> distinct (map fst m)
          \<and> map_of m ''MSFT''
              = Some \<lparr>columns = [''Close'', ''Volume''],
                      rows = [(1, [Num 300, Num 1000]), (2, [Num 310, Num 1100]),
                              (3, [Num 320, Num 1200])]\<rparr>
          \<and> map_of m ''GOOGL''
              = Some \<lparr>columns = [''Close'', ''Volume''],
                      rows = [(1, [Num 130, Num 2000]), (2, [NaN, NaN]),
                              (3, [Num 140, Num 2200])]\<rparr>"
    using m keys msft googl unfolding tm tg by auto
  have a': "1 < length [''msft'', ''googl'']" by simp
  have b': "download_combined (Many [''msft'', ''googl'']) ''2025-11-04'' ''2026-11-04'' ''1mo''
      = Inr (Combined combined2)"
    by (simp add: download_combined_def)
  have d': "\<not> set [''msft'', ''googl''] \<subseteq> snd ` set (columns combined2)"
    by (simp add: combined2_def)
  have second: "\<not> (\<exists>m. snd (marketDataGraph_get_historical_data (\<lambda>k. 739924) download_combined
                   (Many [''msft'', ''googl'']) None None ''1mo'') = Inr (Dict m) \<and> m \<noteq> [])"
    using d' C4_one_table_per_requested_symbol [where ts = "[''msft'', ''googl'']"
      and clock = "\<lambda>k. 739924" and sd = None and ed = None and s = "''2025-11-04''"
      and e = "''2026-11-04''" and download = download_combined and iv = "''1mo''"
      and data = "Combined combined2", OF a' default_dates_demo b']
    by blast
  show ?thesis
    using a default_dates_demo b c d first second by blast
qed

text \<open>
  C5. When the provider raises an exception, both variants of get_historical_data catch it
  and return the empty result instead of letting it through: the simple variant an empty
  table, the splitting variant an empty table for a single symbol given as a string and an
  empty mapping otherwise. The provider is called exactly once, so nothing is retried.
\<close>

theorem C5_provider_error_gives_empty_result:
  assumes "default_dates clock sd ed = Inr (s, e)"
    and "download tickers s e iv = Inl (Exception m)"
  shows "snd (marketData_get_historical_data clock download tickers sd ed iv)
           = Inr (Flat empty_frame)
     \<and> snd (marketDataGraph_get_historical_data clock download tickers sd ed iv)
           = Inr (if is_str tickers then Table (Flat empty_frame) else Dict [])
     \<and> filter is_download (fst (marketData_get_historical_data clock download tickers sd ed iv))
           = [Download tickers s e iv]
     \<and> filter is_download (fst (marketDataGraph_get_historical_data clock download tickers sd ed iv))
           = [Download tickers s e iv]"
  using assms
  by (simp add: marketData_get_historical_data_def marketDataGraph_get_historical_data_def
      graph_fetch_body_def empty_result_def)

theorem C5_witness:
  "default_dates (\<lambda>k. 739924) None None = Inr (''2025-11-04'', ''2026-11-04'')
   \<and> download_fails (Many [''MSFT'', ''GOOGL'']) ''2025-11-04'' ''2026-11-04'' ''1d''
     = Inl (Exception ''ConnectionError'')
   \<and> snd (marketData_get_historical_data (\<lambda>k. 739924) download_fails
            (Many [''MSFT'', ''GOOGL'']) None None ''1d'') = Inr (Flat empty_frame)
   \<and> snd (marketDataGraph_get_historical_data (\<lambda>k. 739924) download_fails
            (Many [''MSFT'', ''GOOGL'']) None None ''1d'') = Inr (Dict [])"
proof -
  have b: "download_fails (Many [''MSFT'', ''GOOGL'']) ''2025-11-04'' ''2026-11-04'' ''1d''
      = Inl (Exception ''ConnectionError'')"
    by (simp add: download_fails_def)
  show ?thesis
    using b default_dates_demo
      C5_provider_error_gives_empty_result [where clock = "\<lambda>k. 739924" and sd = None
        and ed = None and s = "''2025-11-04''" and e = "''2026-11-04''"
        and download = download_fails and tickers = "Many [''MSFT'', ''GOOGL'']"
        and iv = "''1d''" and m = "''ConnectionError''"]
    by simp
qed

text \<open>
  C7. When the provider raises an exception during the lookup, get_ticker_info catches it
  and returns None, so that the caller's test of the handle skips the field access.
\<close>

theorem C7_provider_error_gives_none:
  assumes "ticker_ctor ticker = Inl (Exception m)"
  shows "get_ticker_info ticker_ctor ticker
       = ([Print (FetchingInfo ticker), Ticker ticker, Print (ErrorOccurred (Exception m))],
          Inr None)"
  using assms by (simp add: get_ticker_info_def)

theorem C7_witness:
  "ticker_fails ''TSLA'' = Inl (Exception ''ConnectionError'')
   \<and> get_ticker_info ticker_fails ''TSLA''
     = ([Print (FetchingInfo ''TSLA''), Ticker ''TSLA'',
         Print (ErrorOccurred (Exception ''ConnectionError'')) :: int event], Inr None)"
proof -
  have a: "ticker_fails ''TSLA'' = Inl (Exception ''ConnectionError'')"
    by (simp add: ticker_fails_def)
  show ?thesis
    using a
      C7_provider_error_gives_none [where ticker_ctor = ticker_fails and ticker = "''TSLA''"
        and m = "''ConnectionError''"]
    by simp
qed

text \<open>
  C10. Called with a list of one symbol, the splitting variant returns the provider's table
  itself when the fetch succeeds with data, and the empty mapping when the provider raises
  an exception or returns an empty table. The two results have different shapes: the
  failure result is no table, so a test for the empty table does not recognise it.
\<close>

theorem C10_single_element_list_shapes:
  assumes "default_dates clock sd ed = Inr (s, e)"
  shows "(download (Many [t]) s e iv = Inr data \<and> \<not> dataframe_empty data \<longrightarrow>
            snd (marketDataGraph_get_historical_data clock download (Many [t]) sd ed iv)
              = Inr (Table data))
     \<and> (download (Many [t]) s e iv = Inr data \<and> dataframe_empty data \<longrightarrow>
            snd (marketDataGraph_get_historical_data clock download (Many [t]) sd ed iv)
              = Inr (Dict []))
     \<and> (download (Many [t]) s e iv = Inl (Exception m) \<longrightarrow>
            snd (marketDataGraph_get_historical_data clock download (Many [t]) sd ed iv)
              = Inr (Dict []))
     \<and> (\<forall>d. Dict [] \<noteq> Table d)"
  using assms
  by (simp add: marketDataGraph_get_historical_data_def graph_fetch_body_def empty_result_def)

theorem C10_witness:
  "default_dates (\<lambda>k. 739924) None None = Inr (''2025-11-04'', ''2026-11-04'')
   \<and> download_combined (Many [''MSFT'']) ''2025-11-04'' ''2026-11-04'' ''1d''
       = Inr (Combined combined2)
   \<and> \<not> dataframe_empty (Combined combined2)
   \<and> snd (marketDataGraph_get_historical_data (\<lambda>k. 739924) download_combined (Many [''MSFT''])
            None None ''1d'') = Inr (Table (Combined combined2))
   \<and> download_fails (Many [''MSFT'']) ''2025-11-04'' ''2026-11-04'' ''1d''
       = Inl (Exception ''ConnectionError'')
   \<and> snd (marketDataGraph_get_historical_data (\<lambda>k. 739924) download_fails (Many [''MSFT''])
            None None ''1d'') = Inr (Dict [])
   \<and> download_nothing (Many [''MSFT'']) ''2025-11-04'' ''2026-11-04'' ''1d''
       = Inr (Flat empty_frame)
   \<and> dataframe_empty (Flat (empty_frame :: (int, string) frame))
   \<and> snd (marketDataGraph_get_historical_data (\<lambda>k. 739924) download_nothing (Many [''MSFT''])
            None None ''1d'') = Inr (Dict [])"
proof -
  have a: "download_combined (Many [''MSFT'']) ''2025-11-04'' ''2026-11-04'' ''1d''
       = Inr (Combined combined2)"
    by (simp add: download_combined_def)
  have b: "\<not> dataframe_empty (Combined combined2)"
    by (simp add: df_empty_def combined2_def)
  have c: "download_fails (Many [''MSFT'']) ''2025-11-04'' ''2026-11-04'' ''1d''
       = Inl (Exception ''ConnectionError'')"
    by (simp add: download_fails_def)
  have d: "download_nothing (Many [''MSFT'']) ''2025-11-04'' ''2026-11-04'' ''1d''
       = Inr (Flat empty_frame)"
    by (simp add: download_nothing_def)
  have e: "dataframe_empty (Flat (empty_frame :: (int, string) frame))"
    by (simp add: df_empty_def empty_frame_def)
  show ?thesis
    using a b c d e default_dates_demo
      C10_single_element_list_shapes [where clock = "\<lambda>k. 739924" and sd = None
        and ed = None and s = "''2025-11-04''" and e = "''2026-11-04''"
        and download = download_combined and t = "''MSFT''" and iv = "''1d''"
        and data = "Combined combined2" and m = "''ConnectionError''"]
      C10_single_element_list_shapes [where clock = "\<lambda>k. 739924" and sd = None
        and ed = None and s = "''2025-11-04''" and e = "''2026-11-04''"
        and download = download_fails and t = "''MSFT''" and iv = "''1d''"
        and data = "Combined combined2" and m = "''ConnectionError''"]
      C10_single_element_list_shapes [where clock = "\<lambda>k. 739924" and sd = None
        and ed = None and s = "''2025-11-04''" and e = "''2026-11-04''"
        and download = download_nothing and t = "''MSFT''" and iv = "''1d''"
        and data = "Flat empty_frame" and m = "''ConnectionError''"]
    by simp
qed

lemma marketData_request:
  assumes "default_dates clock sd ed = Inr (s, e)"
  shows "take 2 (fst (marketData_get_historical_data clock download tickers sd ed iv))
       = [Print (Downloading tickers s e), Download tickers s e iv]"
  using assms
  by (simp add: marketData_get_historical_data_def split: sum.splits)

lemma marketDataGraph_request:
  assumes "default_dates clock sd ed = Inr (s, e)"
  shows "take 2 (fst (marketDataGraph_get_historical_data clock download tickers sd ed iv))
       = [Print (Downloading tickers s e), Download tickers s e iv]"
  using assms
  by (simp add: marketDataGraph_get_historical_data_def graph_fetch_body_def
      split: sum.splits tickers.splits)

text \<open>
  C6. With today the date that the system clock gives during the call (a date that has a
  date 365 days before it), an unspecified start date is replaced by the text of today
  minus 365 days and an unspecified end date by the text of today; dates that are given are
  used as they are. The dates depend on the clock's date and on the arguments only, and
  both variants of get_historical_data send them to the provider.
\<close>

theorem C6_default_dates:
  assumes "clock 0 = today" and "clock 1 = today" and "366 \<le> today" and "today \<le> 3652059"
  shows "default_dates clock None None = Inr (strftime_ymd (today - 365), strftime_ymd today)
     \<and> default_dates clock None (Some e) = Inr (strftime_ymd (today - 365), e)
     \<and> default_dates clock (Some s) None = Inr (s, strftime_ymd today)
     \<and> default_dates clock (Some s) (Some e) = Inr (s, e)
     \<and> take 2 (fst (marketData_get_historical_data clock download tickers None None iv))
         = [Print (Downloading tickers (strftime_ymd (today - 365)) (strftime_ymd today)),
            Download tickers (strftime_ymd (today - 365)) (strftime_ymd today) iv]
     \<and> take 2 (fst (marketDataGraph_get_historical_data clock download_g tickers None None iv))
         = [Print (Downloading tickers (strftime_ymd (today - 365)) (strftime_ymd today)),
            Download tickers (strftime_ymd (today - 365)) (strftime_ymd today) iv]"
proof -
  have d: "default_dates clock None None = Inr (strftime_ymd (today - 365), strftime_ymd today)"
    using assms by (simp add: default_dates_def date_sub_days_def)
  show ?thesis
    using assms
    by (simp add: marketData_request [OF d] marketDataGraph_request [OF d])
      (simp add: default_dates_def date_sub_days_def)
qed

lemma strftime_demo:
  "strftime_ymd 738946 = ''2024-03-01'' \<and> strftime_ymd (738946 - 365) = ''2023-03-02''"
  by (simp add: strftime_ymd_def ord2ymd_def Let_def pad4_def pad2_def digit_def
      days_before_month_def days_in_month_def)

theorem C6_witness:
  "(\<lambda>k. 738946) (0::nat) = (738946::int) \<and> (\<lambda>k. 738946) (1::nat) = (738946::int)
   \<and> (366::int) \<le> 738946 \<and> (738946::int) \<le> 3652059
   \<and> default_dates (\<lambda>k. 738946) None None = Inr (''2023-03-02'', ''2024-03-01'')
   \<and> take 2 (fst (marketDataGraph_get_historical_data (\<lambda>k. 738946) download_fails
                    (Single ''AAPL'') None None ''1d''))
     = [Print (Downloading (Single ''AAPL'') ''2023-03-02'' ''2024-03-01''),
        Download (Single ''AAPL'') ''2023-03-02'' ''2024-03-01'' ''1d'']"
  using strftime_demo
    C6_default_dates [where clock = "\<lambda>k. 738946" and today = 738946
      and download = download_fails and download_g = download_fails and tickers = "Single ''AAPL''" and iv = "''1d''"]
  by simp

end
